theory Spec2Isabelle
  imports Main "HOL-Library.Sublist"
begin

section \<open>Python string primitives used by \<open>src/app/main.py\<close>\<close>

text \<open>
  A Python \<open>str\<close> is modelled as a \<open>string\<close> (a list of characters). The three
  primitives the program uses are \<open>str.startswith\<close>, the \<open>in\<close> operator on strings and
  \<open>str.replace\<close>.
\<close>

definition startswith :: "string \<Rightarrow> string \<Rightarrow> bool" where
  "startswith s p = prefix p s"

text \<open>\<open>sub in s\<close>: \<open>sub\<close> occurs somewhere in \<open>s\<close> as a contiguous substring.\<close>

fun contains :: "string \<Rightarrow> string \<Rightarrow> bool" where
  "contains [] sub = (sub = [])"
| "contains (c # cs) sub = (prefix sub (c # cs) \<or> contains cs sub)"

text \<open>
  \<open>s.replace(old, new)\<close>: scan from the left, replace each occurrence of \<open>old\<close> found and
  continue behind it (occurrences never overlap). With an empty \<open>old\<close> Python puts \<open>new\<close>
  before every character and at the end.
\<close>

function replace :: "string \<Rightarrow> string \<Rightarrow> string \<Rightarrow> string" where
  "replace [] old new = (if old = [] then new else [])"
| "replace (c # cs) old new =
     (if old = [] then new @ c # replace cs old new
      else if prefix old (c # cs) then new @ replace (drop (length old) (c # cs)) old new
      else c # replace cs old new)"
  by pat_completeness auto
termination
  by (relation "measure (\<lambda>(s, old, new). length s)") (auto simp: Suc_le_eq)

section \<open>Configuration\<close>

text \<open>
  \<open>BOT_NAME = os.environ.get('BOT_NAME')\<close> is \<open>None\<close> when the variable is not set, and
  the f-string that builds \<open>BOT_MENTION\<close> (the name between \<open><@\<close> and \<open>>\<close>) then
  formats it as the text \<open>None\<close>. The configuration
  is read once at start-up; the model passes it to every function.
\<close>

definition BOT_MENTION :: "string option \<Rightarrow> string" where
  "BOT_MENTION BOT_NAME =
     ''<@'' @ (case BOT_NAME of None \<Rightarrow> ''None'' | Some n \<Rightarrow> n) @ ''>''"

definition SPACE :: string where
  "SPACE = [CHR 0x20]"

definition NEWLINE :: string where
  "NEWLINE = [CHR 0x0A]"

section \<open>\<open>delete_prefix\<close>\<close>

lemma length_replace_le: "length (replace s old []) \<le> length s"
proof (induction s old "[] :: string" rule: replace.induct)
  case (1 old)
  then show ?case by simp
next
  case (2 c cs old)
  then show ?case by (auto simp: le_Suc_eq)
qed

lemma length_replace_less:
  assumes "old \<noteq> []" and "prefix old s"
  shows "length (replace s old []) < length s"
proof (cases s)
  case Nil
  with assms show ?thesis by simp
next
  case (Cons c cs)
  have "length (replace (drop (length old) (c # cs)) old []) \<le> length (drop (length old) (c # cs))"
    by (rule length_replace_le)
  also have "\<dots> < length (c # cs)"
    using assms(1) by (cases old) auto
  finally show ?thesis
    using assms Cons by simp
qed

function delete_prefix :: "string option \<Rightarrow> string \<Rightarrow> string" where
  "delete_prefix BOT_NAME message =
     (let message = replace message (BOT_MENTION BOT_NAME) [] in
      if startswith message SPACE then delete_prefix BOT_NAME (replace message SPACE [])
      else if startswith message NEWLINE then delete_prefix BOT_NAME (replace message NEWLINE [])
      else message)"
  by pat_completeness auto
termination
proof (relation "measure (\<lambda>(BOT_NAME, message). length message)")
  show "wf (measure (\<lambda>(BOT_NAME, message). length message))" by simp
next
  fix BOT_NAME :: "string option" and message x :: string
  assume x: "x = replace message (BOT_MENTION BOT_NAME) []" and p: "startswith x SPACE"
  have "length (replace x SPACE []) < length x"
    using p by (intro length_replace_less) (auto simp: startswith_def SPACE_def)
  also have "length x \<le> length message"
    unfolding x by (rule length_replace_le)
  finally show "((BOT_NAME, replace x SPACE []), (BOT_NAME, message))
      \<in> measure (\<lambda>(BOT_NAME, message). length message)" by simp
next
  fix BOT_NAME :: "string option" and message x :: string
  assume x: "x = replace message (BOT_MENTION BOT_NAME) []" and p: "startswith x NEWLINE"
  have "length (replace x NEWLINE []) < length x"
    using p by (intro length_replace_less) (auto simp: startswith_def NEWLINE_def)
  also have "length x \<le> length message"
    unfolding x by (rule length_replace_le)
  finally show "((BOT_NAME, replace x NEWLINE []), (BOT_NAME, message))
      \<in> measure (\<lambda>(BOT_NAME, message). length message)" by simp
qed

declare delete_prefix.simps [simp del]

text \<open>
  The same function again, this time with nothing assumed about its recursion: a call that
  never returned would have the value \<open>None\<close>.
\<close>

partial_function (option) delete_prefix_opt :: "string option \<Rightarrow> string \<Rightarrow> string option" where
  "delete_prefix_opt BOT_NAME message =
     (let message = replace message (BOT_MENTION BOT_NAME) [] in
      if startswith message SPACE then delete_prefix_opt BOT_NAME (replace message SPACE [])
      else if startswith message NEWLINE then delete_prefix_opt BOT_NAME (replace message NEWLINE [])
      else Some message)"

section \<open>Errors, chat data and the external services\<close>

text \<open>
  The exceptions the handler can raise: a missing dictionary key, an index into an empty
  list, and the errors of the two client libraries.
\<close>

datatype error =
    KeyError string
  | IndexError
  | SlackApiError string
  | OpenAIError string

text \<open>
  A chat event and a thread message are Python dictionaries from field names to text. A
  prompt message is the dictionary \<open>dict(role=..., content=...)\<close> the program builds.
\<close>

type_synonym event = "string \<rightharpoonup> string"

type_synonym message = "string \<rightharpoonup> string"

record prompt_message =
  role :: string
  content :: string

text \<open>
  Every request the handler sends to the chat platform or to the completion provider, with
  its arguments. The log of a run is the list of requests made, each with a flag that says
  whether it succeeded.
\<close>

datatype call =
    is_fetch: ConversationsReplies string string
  | is_post: ChatPostMessage string string string
  | is_completion: ChatCompletionCreate string "prompt_message list"
  | is_delete: ChatDelete string string
  | is_say: Say string string string

type_synonym log = "(call \<times> bool) list"

text \<open>
  The external services are parameters of the model. Each one answers a request, given
  the log of everything done before it, with an error or a result:
  \<^item> \<open>conversations_replies log channel ts\<close>: the \<open>messages\<close> of the thread;
  \<^item> \<open>chat_postMessage log channel thread_ts text\<close>: the \<open>ts\<close> of the posted message;
  \<^item> \<open>ChatCompletion_create log model messages\<close>: the content of each choice;
  \<^item> \<open>chat_delete log channel ts\<close> and \<open>say log text channel thread_ts\<close>: nothing.
\<close>

record services =
  conversations_replies :: "log \<Rightarrow> string \<Rightarrow> string \<Rightarrow> error + message list"
  chat_postMessage :: "log \<Rightarrow> string \<Rightarrow> string \<Rightarrow> string \<Rightarrow> error + string"
  ChatCompletion_create :: "log \<Rightarrow> string \<Rightarrow> prompt_message list \<Rightarrow> error + string list"
  chat_delete :: "log \<Rightarrow> string \<Rightarrow> string \<Rightarrow> error + unit"
  say :: "log \<Rightarrow> string \<Rightarrow> string \<Rightarrow> string \<Rightarrow> error + unit"

text \<open>
  A computation takes the log so far and returns its result, or the exception it raised,
  together with the extended log.
\<close>

type_synonym 'a run = "log \<Rightarrow> (error + 'a) \<times> log"

definition ret :: "'a \<Rightarrow> 'a run" where
  "ret x lg = (Inr x, lg)"

definition raise :: "error \<Rightarrow> 'a run" where
  "raise e lg = (Inl e, lg)"

definition bind :: "'a run \<Rightarrow> ('a \<Rightarrow> 'b run) \<Rightarrow> 'b run" where
  "bind f g lg = (case f lg of (Inl e, lg') \<Rightarrow> (Inl e, lg') | (Inr x, lg') \<Rightarrow> g x lg')"

text \<open>\<open>d[k]\<close> raises \<open>KeyError\<close> on a missing key; \<open>xs[0]\<close> and \<open>xs[-1]\<close> raise
  \<open>IndexError\<close> on an empty list.\<close>

definition getitem :: "(string \<rightharpoonup> string) \<Rightarrow> string \<Rightarrow> string run" where
  "getitem d k = (case d k of None \<Rightarrow> raise (KeyError k) | Some v \<Rightarrow> ret v)"

definition first_item :: "'a list \<Rightarrow> 'a run" where
  "first_item xs = (case xs of [] \<Rightarrow> raise IndexError | x # _ \<Rightarrow> ret x)"

definition last_item :: "'a list \<Rightarrow> 'a run" where
  "last_item xs = (case xs of [] \<Rightarrow> raise IndexError | _ # _ \<Rightarrow> ret (last xs))"

definition perform :: "call \<Rightarrow> (log \<Rightarrow> error + 'a) \<Rightarrow> 'a run" where
  "perform c answer lg =
     (case answer lg of
        Inl e \<Rightarrow> (Inl e, lg @ [(c, False)])
      | Inr x \<Rightarrow> (Inr x, lg @ [(c, True)]))"

text \<open>\<open>event.get('thread_ts', event['ts'])\<close>: the default \<open>event['ts']\<close> is evaluated
  first, so a missing \<open>ts\<close> raises even when \<open>thread_ts\<close> is there.\<close>

definition thread_root :: "event \<Rightarrow> string run" where
  "thread_root event =
     bind (getitem event ''ts'') (\<lambda>ts.
       ret (case event ''thread_ts'' of None \<Rightarrow> ts | Some t \<Rightarrow> t))"

definition SYSTEM_PROMPT :: string where
  "SYSTEM_PROMPT = ''This is a conversation between a user and an helpful assistant. The assistant thinks step-by-step and gives useful advise to the user, with detailed explanation why he gives such advise.''"

text \<open>The text of the placeholder message, four Japanese characters, as UTF-8.\<close>

definition PLACEHOLDER_TEXT :: string where
  "PLACEHOLDER_TEXT =
     [CHR 0xE7, CHR 0x94, CHR 0x9F, CHR 0xE6, CHR 0x88, CHR 0x90,
      CHR 0xE3, CHR 0x81, CHR 0xAA, CHR 0xE3, CHR 0x81, CHR 0x86]"

section \<open>\<open>should_run_completion\<close>\<close>

definition should_run_completion :: "services \<Rightarrow> string option \<Rightarrow> event \<Rightarrow> bool run" where
  "should_run_completion app BOT_NAME event =
     (if event ''subtype'' = Some ''message_changed'' then ret False
      else
        bind (getitem event ''channel'') (\<lambda>channel.
        bind (thread_root event) (\<lambda>ts.
        bind (perform (ConversationsReplies channel ts)
               (\<lambda>lg. conversations_replies app lg channel ts)) (\<lambda>thread.
        bind (first_item thread) (\<lambda>m0.
        bind (getitem m0 ''text'') (\<lambda>origin_message.
        bind (last_item thread) (\<lambda>m1.
        bind (getitem m1 ''user'') (\<lambda>last_speaker.
          if contains origin_message (BOT_MENTION BOT_NAME) \<and> Some last_speaker \<noteq> BOT_NAME
          then ret True else ret False))))))))"

section \<open>\<open>create_messages\<close>\<close>

text \<open>The loop over the thread: \<open>message['user']\<close> is read before \<open>message['text']\<close>.\<close>

fun append_thread ::
  "string option \<Rightarrow> message list \<Rightarrow> prompt_message list \<Rightarrow> error + prompt_message list" where
  "append_thread BOT_NAME [] messages = Inr messages"
| "append_thread BOT_NAME (message # rest) messages =
     (case message ''user'' of
        None \<Rightarrow> Inl (KeyError ''user'')
      | Some user \<Rightarrow>
          (case message ''text'' of
             None \<Rightarrow> Inl (KeyError ''text'')
           | Some text \<Rightarrow>
               append_thread BOT_NAME rest
                 (messages @
                  [\<lparr>role = (if Some user = BOT_NAME then ''assistant'' else ''user''),
                    content = delete_prefix BOT_NAME text\<rparr>])))"

definition create_messages ::
  "services \<Rightarrow> string option \<Rightarrow> event \<Rightarrow> prompt_message list run" where
  "create_messages app BOT_NAME event =
     bind (getitem event ''channel'') (\<lambda>channel.
     bind (thread_root event) (\<lambda>ts.
     bind (perform (ConversationsReplies channel ts)
            (\<lambda>lg. conversations_replies app lg channel ts)) (\<lambda>thread.
       (\<lambda>lg. (append_thread BOT_NAME thread [\<lparr>role = ''system'', content = SYSTEM_PROMPT\<rparr>],
              lg)))))"

section \<open>\<open>run_completion\<close>\<close>

definition run_completion :: "services \<Rightarrow> string option \<Rightarrow> event \<Rightarrow> unit run" where
  "run_completion app BOT_NAME event =
     bind (should_run_completion app BOT_NAME event) (\<lambda>triggered.
       if \<not> triggered then ret ()
       else
         bind (getitem event ''channel'') (\<lambda>channel.
         bind (getitem event ''ts'') (\<lambda>ts.
         bind (perform (ConversationsReplies channel ts)
                (\<lambda>lg. conversations_replies app lg channel ts)) (\<lambda>response.
         bind (first_item response) (\<lambda>m0.
         bind (getitem m0 ''ts'') (\<lambda>thread_ts.
         bind (perform (ChatPostMessage channel thread_ts PLACEHOLDER_TEXT)
                (\<lambda>lg. chat_postMessage app lg channel thread_ts PLACEHOLDER_TEXT))
              (\<lambda>tmp_ts.
         bind (create_messages app BOT_NAME event) (\<lambda>messages.
         bind (perform (ChatCompletionCreate ''gpt-3.5-turbo'' messages)
                (\<lambda>lg. ChatCompletion_create app lg ''gpt-3.5-turbo'' messages))
              (\<lambda>choices.
         bind (first_item choices) (\<lambda>assistant_message.
         bind (perform (ChatDelete channel tmp_ts)
                (\<lambda>lg. chat_delete app lg channel tmp_ts)) (\<lambda>_.
           perform (Say assistant_message channel thread_ts)
             (\<lambda>lg. say app lg assistant_message channel thread_ts))))))))))))"

text \<open>The requests a run has added to the log it started from.\<close>

definition new_calls :: "log \<Rightarrow> log \<Rightarrow> log" where
  "new_calls lg lg' = drop (length lg) lg'"

section \<open>Example services and events\<close>

text \<open>
  A chat workspace whose thread fetch always answers with the given thread and whose other
  requests succeed, and variants of it in which one request fails.
\<close>

definition example_services :: "message list \<Rightarrow> services" where
  "example_services thread =
     \<lparr>conversations_replies = (\<lambda>lg channel ts. Inr thread),
      chat_postMessage = (\<lambda>lg channel thread_ts text. Inr ''1700000002.000300''),
      ChatCompletion_create = (\<lambda>lg model messages. Inr [''Start with the dates.'']),
      chat_delete = (\<lambda>lg channel ts. Inr ()),
      say = (\<lambda>lg text channel thread_ts. Inr ())\<rparr>"

definition completion_down :: "message list \<Rightarrow> services" where
  "completion_down thread =
     (example_services thread)
       \<lparr>ChatCompletion_create := (\<lambda>lg model messages. Inl (OpenAIError ''timeout''))\<rparr>"

definition say_down :: "message list \<Rightarrow> services" where
  "say_down thread =
     (example_services thread)
       \<lparr>say := (\<lambda>lg text channel thread_ts. Inl (SlackApiError ''msg_too_long''))\<rparr>"

definition example_message :: "string \<Rightarrow> string \<Rightarrow> string \<Rightarrow> message" where
  "example_message user text ts = [''user'' \<mapsto> user, ''text'' \<mapsto> text, ''ts'' \<mapsto> ts]"

definition trip_thread :: "message list" where
  "trip_thread = [example_message ''u1'' ''<@BOT> help me plan a trip'' ''1700000001.000100'']"

definition answered_thread :: "message list" where
  "answered_thread =
     [example_message ''u1'' ''<@BOT> hi'' ''1700000001.000100'',
      example_message ''BOT'' ''hello'' ''1700000003.000400'']"

definition example_event :: event where
  "example_event = [''channel'' \<mapsto> ''C1'', ''ts'' \<mapsto> ''1700000001.000100'']"

definition edit_event :: event where
  "edit_event = example_event(''subtype'' \<mapsto> ''message_changed'')"

section \<open>Properties of the string primitives\<close>

lemma BOT_MENTION_nonempty: "BOT_MENTION bn \<noteq> []"
  by (simp add: BOT_MENTION_def)

lemma contains_iff_sublist: "contains s sub \<longleftrightarrow> sublist sub s"
  by (induction s) (auto simp: sublist_Cons_right)

lemma replace_absent: "old \<noteq> [] \<Longrightarrow> \<not> contains s old \<Longrightarrow> replace s old [] = s"
  by (induction s) auto

lemma length_replace_present:
  "old \<noteq> [] \<Longrightarrow> contains s old \<Longrightarrow> length (replace s old []) < length s"
proof (induction s)
  case Nil
  then show ?case by simp
next
  case (Cons c cs)
  show ?case
  proof (cases "prefix old (c # cs)")
    case True
    then show ?thesis using Cons.prems(1) by (intro length_replace_less)
  next
    case False
    then show ?thesis using Cons by simp
  qed
qed

section \<open>Properties of \<open>delete_prefix\<close>\<close>

lemma delete_prefix_no_leading:
  "\<not> startswith (delete_prefix bn s) SPACE \<and> \<not> startswith (delete_prefix bn s) NEWLINE"
proof (induction bn s rule: delete_prefix.induct)
  case (1 bn s)
  then show ?case
    by (subst (1 2) delete_prefix.simps) (simp add: Let_def)
qed

lemma length_delete_prefix_le:
  "length (delete_prefix bn s) \<le> length (replace s (BOT_MENTION bn) [])"
proof (induction bn s rule: delete_prefix.induct)
  case (1 bn s)
  let ?m = "replace s (BOT_MENTION bn) []"
  show ?case
  proof (cases "startswith ?m SPACE")
    case True
    have "length (delete_prefix bn (replace ?m SPACE []))
        \<le> length (replace (replace ?m SPACE []) (BOT_MENTION bn) [])"
      using 1(1)[OF refl True] .
    also have "\<dots> \<le> length (replace ?m SPACE [])" by (rule length_replace_le)
    also have "\<dots> \<le> length ?m" by (rule length_replace_le)
    finally show ?thesis using True by (subst delete_prefix.simps) (simp add: Let_def)
  next
    case no_space: False
    show ?thesis
    proof (cases "startswith ?m NEWLINE")
      case True
      have "length (delete_prefix bn (replace ?m NEWLINE []))
          \<le> length (replace (replace ?m NEWLINE []) (BOT_MENTION bn) [])"
        using 1(2)[OF refl no_space True] .
      also have "\<dots> \<le> length (replace ?m NEWLINE [])" by (rule length_replace_le)
      also have "\<dots> \<le> length ?m" by (rule length_replace_le)
      finally show ?thesis
        using True no_space by (subst delete_prefix.simps) (simp add: Let_def)
    next
      case False
      then show ?thesis
        using no_space by (subst delete_prefix.simps) (simp add: Let_def)
    qed
  qed
qed

lemma delete_prefix_fixed:
  assumes "\<not> contains s (BOT_MENTION bn)" "\<not> startswith s SPACE" "\<not> startswith s NEWLINE"
  shows "delete_prefix bn s = s"
  using assms
  by (subst delete_prefix.simps) (simp add: replace_absent BOT_MENTION_nonempty Let_def)

lemma delete_prefix_opt_eq: "delete_prefix_opt bn s = Some (delete_prefix bn s)"
proof (induction bn s rule: delete_prefix.induct)
  case (1 bn s)
  show ?case
    by (subst delete_prefix_opt.simps, subst delete_prefix.simps) (simp add: Let_def 1)
qed

text \<open>
  C1. The claim: \<open>delete_prefix\<close> removes every mention token and the leading spaces and
  newlines, and leaves all other content, non-leading whitespace included, as it is. On
  the message \<open><@BOT> help me plan a trip\<close> the program returns \<open>helpmeplanatrip\<close>: once the
  text left by the mention starts with a space, \<open>message.replace(prefix, '')\<close> deletes the
  spaces between the words too.
\<close>

theorem delete_prefix_deletes_inner_spaces:
  "delete_prefix (Some ''BOT'') ''<@BOT> help me plan a trip'' = ''helpmeplanatrip''"
  by code_simp

text \<open>
  C6, as the claim states it: \<open>delete_prefix\<close> applied twice gives the same as applied once.
  It fails on \<open><@<@BOT>BOT>\<close>: deleting the inner mention token leaves a new one, which
  only a second application deletes.
\<close>

theorem delete_prefix_twice_differs:
  "delete_prefix (Some ''BOT'') (delete_prefix (Some ''BOT'') ''<@<@BOT>BOT>'')
     \<noteq> delete_prefix (Some ''BOT'') ''<@<@BOT>BOT>''"
  by code_simp

text \<open>
  C6, amended: a second application of \<open>delete_prefix\<close> changes nothing exactly when the
  result of the first contains no mention token.
\<close>

theorem delete_prefix_idempotent_iff:
  "delete_prefix bn (delete_prefix bn s) = delete_prefix bn s
     \<longleftrightarrow> \<not> contains (delete_prefix bn s) (BOT_MENTION bn)"
proof
  assume eq: "delete_prefix bn (delete_prefix bn s) = delete_prefix bn s"
  show "\<not> contains (delete_prefix bn s) (BOT_MENTION bn)"
  proof
    assume "contains (delete_prefix bn s) (BOT_MENTION bn)"
    then have "length (replace (delete_prefix bn s) (BOT_MENTION bn) [])
        < length (delete_prefix bn s)"
      by (intro length_replace_present BOT_MENTION_nonempty)
    moreover have "length (delete_prefix bn (delete_prefix bn s))
        \<le> length (replace (delete_prefix bn s) (BOT_MENTION bn) [])"
      by (rule length_delete_prefix_le)
    ultimately show False using eq by simp
  qed
next
  assume "\<not> contains (delete_prefix bn s) (BOT_MENTION bn)"
  then show "delete_prefix bn (delete_prefix bn s) = delete_prefix bn s"
    by (intro delete_prefix_fixed) (simp_all add: delete_prefix_no_leading)
qed

theorem delete_prefix_idempotent_witness:
  "\<not> contains (delete_prefix (Some ''BOT'') ''<@BOT> hi'') (BOT_MENTION (Some ''BOT'')) \<and>
   delete_prefix (Some ''BOT'') (delete_prefix (Some ''BOT'') ''<@BOT> hi'')
     = delete_prefix (Some ''BOT'') ''<@BOT> hi''"
proof -
  have "\<not> contains (delete_prefix (Some ''BOT'') ''<@BOT> hi'') (BOT_MENTION (Some ''BOT''))"
    by code_simp
  then show ?thesis
    using delete_prefix_idempotent_iff [of "Some ''BOT''" "''<@BOT> hi''"] by simp
qed

text \<open>
  C8. \<open>delete_prefix\<close> returns on every input: the version that could fail to return
  always has a result, the result of the total function. Each recursive call is on a
  strictly shorter string, and without a leading space or newline the function returns the
  text left by deleting the mention tokens.
\<close>

theorem delete_prefix_terminates:
  "delete_prefix_opt bn message = Some (delete_prefix bn message) \<and>
   (startswith (replace message (BOT_MENTION bn) []) SPACE \<longrightarrow>
      length (replace (replace message (BOT_MENTION bn) []) SPACE []) < length message) \<and>
   (startswith (replace message (BOT_MENTION bn) []) NEWLINE \<longrightarrow>
      length (replace (replace message (BOT_MENTION bn) []) NEWLINE []) < length message) \<and>
   (\<not> startswith (replace message (BOT_MENTION bn) []) SPACE \<and>
    \<not> startswith (replace message (BOT_MENTION bn) []) NEWLINE \<longrightarrow>
      delete_prefix bn message = replace message (BOT_MENTION bn) [])"
proof -
  let ?m = "replace message (BOT_MENTION bn) []"
  have le: "length ?m \<le> length message"
    by (rule length_replace_le)
  have sp: "length (replace ?m SPACE []) < length message" if "startswith ?m SPACE"
  proof -
    have "length (replace ?m SPACE []) < length ?m"
      using that by (intro length_replace_less) (auto simp: startswith_def SPACE_def)
    with le show ?thesis by simp
  qed
  have nl: "length (replace ?m NEWLINE []) < length message" if "startswith ?m NEWLINE"
  proof -
    have "length (replace ?m NEWLINE []) < length ?m"
      using that by (intro length_replace_less) (auto simp: startswith_def NEWLINE_def)
    with le show ?thesis by simp
  qed
  have stop: "delete_prefix bn message = ?m"
    if "\<not> startswith ?m SPACE \<and> \<not> startswith ?m NEWLINE"
    using that by (subst delete_prefix.simps) (simp add: Let_def)
  show ?thesis
    using sp nl stop by (simp add: delete_prefix_opt_eq)
qed

theorem delete_prefix_terminates_witness:
  "startswith (replace ''<@BOT> hi'' (BOT_MENTION (Some ''BOT'')) []) SPACE \<and>
   length (replace (replace ''<@BOT> hi'' (BOT_MENTION (Some ''BOT'')) []) SPACE [])
     < length ''<@BOT> hi'' \<and>
   delete_prefix_opt (Some ''BOT'') ''<@BOT> hi'' = Some ''hi'' \<and>
   startswith (replace (CHR 0x0A # ''hi'') (BOT_MENTION (Some ''BOT'')) []) NEWLINE \<and>
   length (replace (replace (CHR 0x0A # ''hi'') (BOT_MENTION (Some ''BOT'')) []) NEWLINE [])
     < length (CHR 0x0A # ''hi'') \<and>
   \<not> startswith (replace ''hi<@BOT>'' (BOT_MENTION (Some ''BOT'')) []) SPACE \<and>
   \<not> startswith (replace ''hi<@BOT>'' (BOT_MENTION (Some ''BOT'')) []) NEWLINE \<and>
   delete_prefix (Some ''BOT'') ''hi<@BOT>'' = ''hi''"
proof -
  have a: "startswith (replace ''<@BOT> hi'' (BOT_MENTION (Some ''BOT'')) []) SPACE"
    by code_simp
  have b: "startswith (replace (CHR 0x0A # ''hi'') (BOT_MENTION (Some ''BOT'')) []) NEWLINE"
    by code_simp
  have c: "\<not> startswith (replace ''hi<@BOT>'' (BOT_MENTION (Some ''BOT'')) []) SPACE \<and>
           \<not> startswith (replace ''hi<@BOT>'' (BOT_MENTION (Some ''BOT'')) []) NEWLINE"
    by code_simp
  have d: "delete_prefix (Some ''BOT'') ''<@BOT> hi'' = ''hi''"
    by code_simp
  have e: "replace ''hi<@BOT>'' (BOT_MENTION (Some ''BOT'')) [] = ''hi''"
    by code_simp
  show ?thesis
    using a b c d e
      delete_prefix_terminates [of "Some ''BOT''" "''<@BOT> hi''"]
      delete_prefix_terminates [of "Some ''BOT''" "CHR 0x0A # ''hi''"]
      delete_prefix_terminates [of "Some ''BOT''" "''hi<@BOT>''"]
    by simp
qed

section \<open>Properties of \<open>should_run_completion\<close>\<close>

text \<open>
  C2. For an event that is not an edit, whose thread is fetched and is not empty, the
  filter returns true exactly when the first message's text contains the mention token and
  the author of the last message is not the bot name.
\<close>

theorem should_run_completion_truth_table:
  assumes "event ''subtype'' \<noteq> Some ''message_changed''"
    and "event ''channel'' = Some channel"
    and "event ''ts'' = Some ts"
    and "conversations_replies app lg channel
           (case event ''thread_ts'' of None \<Rightarrow> ts | Some t \<Rightarrow> t) = Inr thread"
    and "thread \<noteq> []"
    and "hd thread ''text'' = Some origin_message"
    and "last thread ''user'' = Some last_speaker"
  shows "fst (should_run_completion app bn event lg) =
           Inr (contains origin_message (BOT_MENTION bn) \<and> Some last_speaker \<noteq> bn)"
  using assms
  by (cases thread)
     (auto simp: should_run_completion_def bind_def getitem_def thread_root_def perform_def
        first_item_def last_item_def ret_def raise_def)

theorem should_run_completion_truth_table_witness:
  "fst (should_run_completion (example_services trip_thread) (Some ''BOT'') example_event [])
     = Inr True \<and>
   fst (should_run_completion (example_services answered_thread) (Some ''BOT'') example_event [])
     = Inr False \<and>
   fst (should_run_completion (example_services [example_message ''u1'' ''hello'' ''1''])
          (Some ''BOT'') example_event [])
     = Inr False \<and>
   fst (should_run_completion (example_services [example_message ''BOT'' ''hello'' ''1''])
          (Some ''BOT'') example_event [])
     = Inr False"
proof -
  have ev: "example_event ''subtype'' \<noteq> Some ''message_changed''"
    "example_event ''channel'' = Some ''C1''"
    "example_event ''ts'' = Some ''1700000001.000100''"
    by (simp_all add: example_event_def)
  have fetch: "conversations_replies (example_services thread) []  ''C1''
      (case example_event ''thread_ts'' of None \<Rightarrow> ''1700000001.000100'' | Some t \<Rightarrow> t)
      = Inr thread" for thread
    by (simp add: example_services_def)
  have m: "BOT_MENTION (Some ''BOT'') = ''<@BOT>''"
    by (simp add: BOT_MENTION_def)
  have 1: "fst (should_run_completion (example_services trip_thread) (Some ''BOT'')
      example_event []) = Inr True"
    using should_run_completion_truth_table [OF ev fetch, of trip_thread
        "''<@BOT> help me plan a trip''" "''u1''" "Some ''BOT''"]
    by (simp add: trip_thread_def example_message_def m)
  have 2: "fst (should_run_completion (example_services answered_thread) (Some ''BOT'')
      example_event []) = Inr False"
    using should_run_completion_truth_table [OF ev fetch, of answered_thread
        "''<@BOT> hi''" "''BOT''" "Some ''BOT''"]
    by (simp add: answered_thread_def example_message_def m)
  have 3: "fst (should_run_completion (example_services [example_message ''u1'' ''hello'' ''1''])
      (Some ''BOT'') example_event []) = Inr False"
    using should_run_completion_truth_table [OF ev fetch,
        of "[example_message ''u1'' ''hello'' ''1'']" "''hello''" "''u1''" "Some ''BOT''"]
    by (simp add: example_message_def m)
  have 4: "fst (should_run_completion (example_services [example_message ''BOT'' ''hello'' ''1''])
      (Some ''BOT'') example_event []) = Inr False"
    using should_run_completion_truth_table [OF ev fetch,
        of "[example_message ''BOT'' ''hello'' ''1'']" "''hello''" "''BOT''" "Some ''BOT''"]
    by (simp add: example_message_def m)
  show ?thesis using 1 2 3 4 by simp
qed

text \<open>
  C7. For an event whose subtype is \<open>message_changed\<close> the filter returns false and makes
  no request: the log is unchanged, so the thread is not fetched.
\<close>

theorem should_run_completion_edit:
  "event ''subtype'' = Some ''message_changed'' \<Longrightarrow>
     should_run_completion app bn event lg = (Inr False, lg)"
  by (simp add: should_run_completion_def ret_def)

theorem should_run_completion_edit_witness:
  "edit_event ''subtype'' = Some ''message_changed'' \<and>
   should_run_completion (example_services trip_thread) (Some ''BOT'') edit_event []
     = (Inr False, [])"
proof -
  have h: "edit_event ''subtype'' = Some ''message_changed''"
    by (simp add: edit_event_def)
  show ?thesis
    using h should_run_completion_edit
      [of edit_event "example_services trip_thread" "Some ''BOT''" "[]"]
    by simp
qed

text \<open>
  C9. For an event that is not an edit, whose fetched thread has no message, the filter
  raises \<open>IndexError\<close> instead of returning a boolean.
\<close>

theorem should_run_completion_empty_thread:
  assumes "event ''subtype'' \<noteq> Some ''message_changed''"
    and "event ''channel'' = Some channel"
    and "event ''ts'' = Some ts"
    and "conversations_replies app lg channel
           (case event ''thread_ts'' of None \<Rightarrow> ts | Some t \<Rightarrow> t) = Inr []"
  shows "fst (should_run_completion app bn event lg) = Inl IndexError"
  using assms
  by (auto simp: should_run_completion_def bind_def getitem_def thread_root_def perform_def
        first_item_def last_item_def ret_def raise_def)

theorem should_run_completion_empty_thread_witness:
  "example_event ''subtype'' \<noteq> Some ''message_changed'' \<and>
   conversations_replies (example_services []) [] ''C1'' ''1700000001.000100'' = Inr [] \<and>
   fst (should_run_completion (example_services []) (Some ''BOT'') example_event [])
     = Inl IndexError"
proof -
  have ev: "example_event ''subtype'' \<noteq> Some ''message_changed''"
    "example_event ''channel'' = Some ''C1''"
    "example_event ''ts'' = Some ''1700000001.000100''"
    by (simp_all add: example_event_def)
  have fetch: "conversations_replies (example_services []) [] ''C1''
      (case example_event ''thread_ts'' of None \<Rightarrow> ''1700000001.000100'' | Some t \<Rightarrow> t)
      = Inr []"
    by (simp add: example_services_def)
  show ?thesis
    using ev fetch should_run_completion_empty_thread [OF ev fetch, of "Some ''BOT''"]
    by (simp add: example_services_def)
qed

section \<open>Properties of \<open>create_messages\<close>\<close>

lemma append_thread_ok:
  assumes "\<forall>m\<in>set thread. m ''user'' \<noteq> None \<and> m ''text'' \<noteq> None"
  shows "append_thread bn thread acc =
     Inr (acc @ map (\<lambda>m. \<lparr>role = (if m ''user'' = bn then ''assistant'' else ''user''),
                           content = delete_prefix bn (the (m ''text''))\<rparr>) thread)"
  using assms by (induction thread arbitrary: acc) auto

text \<open>
  C3. When the thread is fetched and each of its messages has an author and a text, the
  adapter returns the system message followed by one message per thread entry, in the
  thread's order: role \<open>assistant\<close> when the author is the bot name and \<open>user\<close> otherwise,
  content the text after \<open>delete_prefix\<close>.
\<close>

theorem create_messages_shape:
  assumes "event ''channel'' = Some channel"
    and "event ''ts'' = Some ts"
    and "conversations_replies app lg channel
           (case event ''thread_ts'' of None \<Rightarrow> ts | Some t \<Rightarrow> t) = Inr thread"
    and "\<forall>m\<in>set thread. m ''user'' \<noteq> None \<and> m ''text'' \<noteq> None"
  shows "fst (create_messages app bn event lg) =
     Inr (\<lparr>role = ''system'', content = SYSTEM_PROMPT\<rparr> #
          map (\<lambda>m. \<lparr>role = (if m ''user'' = bn then ''assistant'' else ''user''),
                     content = delete_prefix bn (the (m ''text''))\<rparr>) thread)"
  using assms
  by (auto simp: create_messages_def bind_def getitem_def thread_root_def perform_def
        ret_def raise_def append_thread_ok)

theorem create_messages_shape_witness:
  "fst (create_messages (example_services answered_thread) (Some ''BOT'') example_event []) =
     Inr [\<lparr>role = ''system'', content = SYSTEM_PROMPT\<rparr>,
          \<lparr>role = ''user'', content = ''hi''\<rparr>,
          \<lparr>role = ''assistant'', content = ''hello''\<rparr>]"
proof -
  have ev: "example_event ''channel'' = Some ''C1''"
    "example_event ''ts'' = Some ''1700000001.000100''"
    by (simp_all add: example_event_def)
  have fetch: "conversations_replies (example_services answered_thread) [] ''C1''
      (case example_event ''thread_ts'' of None \<Rightarrow> ''1700000001.000100'' | Some t \<Rightarrow> t)
      = Inr answered_thread"
    by (simp add: example_services_def)
  have all: "\<forall>m\<in>set answered_thread. m ''user'' \<noteq> None \<and> m ''text'' \<noteq> None"
    by (simp add: answered_thread_def example_message_def)
  have d1: "delete_prefix (Some ''BOT'') ''<@BOT> hi'' = ''hi''"
    by code_simp
  have d2: "delete_prefix (Some ''BOT'') ''hello'' = ''hello''"
    by code_simp
  show ?thesis
    using create_messages_shape [OF ev fetch all, of "Some ''BOT''"]
    by (simp add: answered_thread_def example_message_def d1 d2)
qed

section \<open>Properties of \<open>run_completion\<close>\<close>

text \<open>
  The filter on an event that triggers: the whole result, with the log.
\<close>

lemma should_run_completion_triggered:
  assumes "event ''subtype'' \<noteq> Some ''message_changed''"
    and "event ''channel'' = Some channel"
    and "event ''ts'' = Some ts"
    and "root = (case event ''thread_ts'' of None \<Rightarrow> ts | Some t \<Rightarrow> t)"
    and "conversations_replies app lg channel root = Inr thread"
    and "thread \<noteq> []"
    and "hd thread ''text'' = Some origin_message"
    and "last thread ''user'' = Some last_speaker"
    and "contains origin_message (BOT_MENTION bn)"
    and "Some last_speaker \<noteq> bn"
  shows "should_run_completion app bn event lg =
           (Inr True, lg @ [(ConversationsReplies channel root, True)])"
  using assms
  by (cases thread)
     (auto simp: should_run_completion_def bind_def getitem_def thread_root_def perform_def
        first_item_def last_item_def ret_def raise_def)

lemma create_messages_result:
  assumes "event ''channel'' = Some channel"
    and "event ''ts'' = Some ts"
    and "root = (case event ''thread_ts'' of None \<Rightarrow> ts | Some t \<Rightarrow> t)"
    and "conversations_replies app lg channel root = Inr history"
    and "\<forall>m\<in>set history. m ''user'' \<noteq> None \<and> m ''text'' \<noteq> None"
  shows "create_messages app bn event lg =
     (Inr (\<lparr>role = ''system'', content = SYSTEM_PROMPT\<rparr> #
          map (\<lambda>m. \<lparr>role = (if m ''user'' = bn then ''assistant'' else ''user''),
                     content = delete_prefix bn (the (m ''text''))\<rparr>) history),
      lg @ [(ConversationsReplies channel root, True)])"
  using assms
  by (auto simp: create_messages_def bind_def getitem_def thread_root_def perform_def
        ret_def raise_def append_thread_ok)

text \<open>
  A triggered run up to the completion request: when the three fetches and the placeholder
  post succeed and the history has an author and a text in every message, what is left of
  the run is the completion request, the read of its first choice, the delete and the
  final post, started on the log of the four requests made so far.
\<close>

lemma run_completion_until_request:
  assumes "event ''subtype'' \<noteq> Some ''message_changed''"
    and "event ''channel'' = Some channel"
    and "event ''ts'' = Some ts"
    and "root = (case event ''thread_ts'' of None \<Rightarrow> ts | Some t \<Rightarrow> t)"
    and "conversations_replies app lg channel root = Inr thread"
    and "thread \<noteq> []"
    and "hd thread ''text'' = Some origin_message"
    and "last thread ''user'' = Some last_speaker"
    and "contains origin_message (BOT_MENTION bn)"
    and "Some last_speaker \<noteq> bn"
    and "lg_filter = lg @ [(ConversationsReplies channel root, True)]"
    and "conversations_replies app lg_filter channel ts = Inr (root_message # rest)"
    and "root_message ''ts'' = Some thread_ts"
    and "lg_root = lg_filter @ [(ConversationsReplies channel ts, True)]"
    and "chat_postMessage app lg_root channel thread_ts PLACEHOLDER_TEXT = Inr tmp_ts"
    and "lg_post = lg_root @ [(ChatPostMessage channel thread_ts PLACEHOLDER_TEXT, True)]"
    and "conversations_replies app lg_post channel root = Inr history"
    and "\<forall>m\<in>set history. m ''user'' \<noteq> None \<and> m ''text'' \<noteq> None"
    and "messages = \<lparr>role = ''system'', content = SYSTEM_PROMPT\<rparr> #
          map (\<lambda>m. \<lparr>role = (if m ''user'' = bn then ''assistant'' else ''user''),
                     content = delete_prefix bn (the (m ''text''))\<rparr>) history"
    and "lg_history = lg_post @ [(ConversationsReplies channel root, True)]"
  shows "run_completion app bn event lg =
     bind (perform (ChatCompletionCreate ''gpt-3.5-turbo'' messages)
            (\<lambda>l. ChatCompletion_create app l ''gpt-3.5-turbo'' messages))
       (\<lambda>choices.
          bind (first_item choices) (\<lambda>assistant_message.
          bind (perform (ChatDelete channel tmp_ts) (\<lambda>l. chat_delete app l channel tmp_ts))
            (\<lambda>_. perform (Say assistant_message channel thread_ts)
                   (\<lambda>l. say app l assistant_message channel thread_ts))))
       lg_history"
proof -
  have s1: "should_run_completion app bn event lg = (Inr True, lg_filter)"
    unfolding assms(11) using assms(1-10) by (rule should_run_completion_triggered)
  have s8: "create_messages app bn event lg_post = (Inr messages, lg_history)"
    unfolding assms(19,20) using assms(2-4,17,18) by (rule create_messages_result)
  have b1: "bind (should_run_completion app bn event) g lg = g True lg_filter" for g :: "bool \<Rightarrow> unit run"
    by (simp add: bind_def s1)
  have b2: "bind (getitem event ''channel'') g lg_filter = g channel lg_filter" for g :: "string \<Rightarrow> unit run"
    by (simp add: bind_def getitem_def ret_def assms(2))
  have b3: "bind (getitem event ''ts'') g lg_filter = g ts lg_filter" for g :: "string \<Rightarrow> unit run"
    by (simp add: bind_def getitem_def ret_def assms(3))
  have b4: "bind (perform (ConversationsReplies channel ts)
      (\<lambda>lg. conversations_replies app lg channel ts)) g lg_filter = g (root_message # rest) lg_root"
    for g :: "message list \<Rightarrow> unit run"
    by (simp add: bind_def perform_def assms(12) assms(14))
  have b5: "bind (first_item (root_message # rest)) g lg_root = g root_message lg_root" for g :: "message \<Rightarrow> unit run"
    by (simp add: bind_def first_item_def ret_def)
  have b6: "bind (getitem root_message ''ts'') g lg_root = g thread_ts lg_root" for g :: "string \<Rightarrow> unit run"
    by (simp add: bind_def getitem_def ret_def assms(13))
  have b7: "bind (perform (ChatPostMessage channel thread_ts PLACEHOLDER_TEXT)
      (\<lambda>lg. chat_postMessage app lg channel thread_ts PLACEHOLDER_TEXT)) g lg_root = g tmp_ts lg_post"
    for g :: "string \<Rightarrow> unit run"
    by (simp add: bind_def perform_def assms(15) assms(16))
  have b8: "bind (create_messages app bn event) g lg_post = g messages lg_history"
    for g :: "prompt_message list \<Rightarrow> unit run"
    by (simp add: bind_def s8)
  show ?thesis
    unfolding run_completion_def
    by (simp add: b1 b2 b3 b4 b5 b6 b7 b8)
qed

lemma run_completion_all_succeed:
  assumes "event ''subtype'' \<noteq> Some ''message_changed''"
    and "event ''channel'' = Some channel"
    and "event ''ts'' = Some ts"
    and "root = (case event ''thread_ts'' of None \<Rightarrow> ts | Some t \<Rightarrow> t)"
    and "conversations_replies app lg channel root = Inr thread"
    and "thread \<noteq> []"
    and "hd thread ''text'' = Some origin_message"
    and "last thread ''user'' = Some last_speaker"
    and "contains origin_message (BOT_MENTION bn)"
    and "Some last_speaker \<noteq> bn"
    and "lg_filter = lg @ [(ConversationsReplies channel root, True)]"
    and "conversations_replies app lg_filter channel ts = Inr (root_message # rest)"
    and "root_message ''ts'' = Some thread_ts"
    and "lg_root = lg_filter @ [(ConversationsReplies channel ts, True)]"
    and "chat_postMessage app lg_root channel thread_ts PLACEHOLDER_TEXT = Inr tmp_ts"
    and "lg_post = lg_root @ [(ChatPostMessage channel thread_ts PLACEHOLDER_TEXT, True)]"
    and "conversations_replies app lg_post channel root = Inr history"
    and "\<forall>m\<in>set history. m ''user'' \<noteq> None \<and> m ''text'' \<noteq> None"
    and "messages = \<lparr>role = ''system'', content = SYSTEM_PROMPT\<rparr> #
          map (\<lambda>m. \<lparr>role = (if m ''user'' = bn then ''assistant'' else ''user''),
                     content = delete_prefix bn (the (m ''text''))\<rparr>) history"
    and "lg_history = lg_post @ [(ConversationsReplies channel root, True)]"
    and "ChatCompletion_create app lg_history ''gpt-3.5-turbo'' messages = Inr (answer # others)"
    and "lg_request = lg_history @ [(ChatCompletionCreate ''gpt-3.5-turbo'' messages, True)]"
    and "chat_delete app lg_request channel tmp_ts = Inr ()"
    and "lg_delete = lg_request @ [(ChatDelete channel tmp_ts, True)]"
    and "say app lg_delete answer channel thread_ts = Inr ()"
  shows "run_completion app bn event lg =
           (Inr (), lg @ [(ConversationsReplies channel root, True),
                   (ConversationsReplies channel ts, True),
                   (ChatPostMessage channel thread_ts PLACEHOLDER_TEXT, True),
                   (ConversationsReplies channel root, True),
                   (ChatCompletionCreate ''gpt-3.5-turbo'' messages, True),
                   (ChatDelete channel tmp_ts, True),
                   (Say answer channel thread_ts, True)])"
proof -
  have d: "chat_delete app (lg_history @ [(ChatCompletionCreate ''gpt-3.5-turbo'' messages, True)])
      channel tmp_ts = Inr ()"
    using assms(22,23) by simp
  have p: "say app (lg_history @ [(ChatCompletionCreate ''gpt-3.5-turbo'' messages, True),
      (ChatDelete channel tmp_ts, True)]) answer channel thread_ts = Inr ()"
    using assms(22,24,25) by simp
  have "run_completion app bn event lg =
      (Inr (), lg_history @ [(ChatCompletionCreate ''gpt-3.5-turbo'' messages, True),
                      (ChatDelete channel tmp_ts, True),
                      (Say answer channel thread_ts, True)])"
    unfolding run_completion_until_request [OF assms(1-20)]
    by (simp add: bind_def perform_def first_item_def ret_def assms(21) d p)
  then show ?thesis
    by (simp add: assms(11,14,16,20))
qed

text \<open>
  C4. A triggered event on which every request succeeds: the three fetches, the
  placeholder post, the completion request (with at least one choice), the delete and the
  final post, and every message of the history has an author and a text. The handler then
  returns normally, and the requests it has made are exactly these seven, each one
  successful, in this order: the placeholder is posted once, before the one completion
  request; the one delete (of the message the post answered with) comes after the
  completion response and before the one final post.
\<close>

theorem run_completion_happy_path:
  assumes "event ''subtype'' \<noteq> Some ''message_changed''"
    and "event ''channel'' = Some channel"
    and "event ''ts'' = Some ts"
    and "root = (case event ''thread_ts'' of None \<Rightarrow> ts | Some t \<Rightarrow> t)"
    and "conversations_replies app lg channel root = Inr thread"
    and "thread \<noteq> []"
    and "hd thread ''text'' = Some origin_message"
    and "last thread ''user'' = Some last_speaker"
    and "contains origin_message (BOT_MENTION bn)"
    and "Some last_speaker \<noteq> bn"
    and "lg_filter = lg @ [(ConversationsReplies channel root, True)]"
    and "conversations_replies app lg_filter channel ts = Inr (root_message # rest)"
    and "root_message ''ts'' = Some thread_ts"
    and "lg_root = lg_filter @ [(ConversationsReplies channel ts, True)]"
    and "chat_postMessage app lg_root channel thread_ts PLACEHOLDER_TEXT = Inr tmp_ts"
    and "lg_post = lg_root @ [(ChatPostMessage channel thread_ts PLACEHOLDER_TEXT, True)]"
    and "conversations_replies app lg_post channel root = Inr history"
    and "\<forall>m\<in>set history. m ''user'' \<noteq> None \<and> m ''text'' \<noteq> None"
    and "messages = \<lparr>role = ''system'', content = SYSTEM_PROMPT\<rparr> #
          map (\<lambda>m. \<lparr>role = (if m ''user'' = bn then ''assistant'' else ''user''),
                     content = delete_prefix bn (the (m ''text''))\<rparr>) history"
    and "lg_history = lg_post @ [(ConversationsReplies channel root, True)]"
    and "ChatCompletion_create app lg_history ''gpt-3.5-turbo'' messages = Inr (answer # others)"
    and "lg_request = lg_history @ [(ChatCompletionCreate ''gpt-3.5-turbo'' messages, True)]"
    and "chat_delete app lg_request channel tmp_ts = Inr ()"
    and "lg_delete = lg_request @ [(ChatDelete channel tmp_ts, True)]"
    and "say app lg_delete answer channel thread_ts = Inr ()"
  shows "run_completion app bn event lg =
           (Inr (), lg @ [(ConversationsReplies channel root, True),
                   (ConversationsReplies channel ts, True),
                   (ChatPostMessage channel thread_ts PLACEHOLDER_TEXT, True),
                   (ConversationsReplies channel root, True),
                   (ChatCompletionCreate ''gpt-3.5-turbo'' messages, True),
                   (ChatDelete channel tmp_ts, True),
                   (Say answer channel thread_ts, True)])"
  using assms by (rule run_completion_all_succeed)

theorem run_completion_happy_path_witness:
  "run_completion (example_services trip_thread) (Some ''BOT'') example_event [] =
     (Inr (), [] @ [(ConversationsReplies ''C1'' ''1700000001.000100'', True),
              (ConversationsReplies ''C1'' ''1700000001.000100'', True),
              (ChatPostMessage ''C1'' ''1700000001.000100'' PLACEHOLDER_TEXT, True),
              (ConversationsReplies ''C1'' ''1700000001.000100'', True),
              (ChatCompletionCreate ''gpt-3.5-turbo''
         [\<lparr>role = ''system'', content = SYSTEM_PROMPT\<rparr>,
          \<lparr>role = ''user'', content = ''helpmeplanatrip''\<rparr>], True),
              (ChatDelete ''C1'' ''1700000002.000300'', True),
              (Say ''Start with the dates.'' ''C1'' ''1700000001.000100'', True)])"
proof -
  have dp: "delete_prefix (Some ''BOT'') ''<@BOT> help me plan a trip'' = ''helpmeplanatrip''"
    by code_simp
  show ?thesis
    by (rule run_completion_happy_path
        [where event = example_event and app = "example_services trip_thread" and bn = "Some ''BOT''"
        and lg = "[]" and channel = "''C1''" and ts = "''1700000001.000100''" and root = "''1700000001.000100''"
        and thread = trip_thread and origin_message = "''<@BOT> help me plan a trip''"
        and last_speaker = "''u1''"
        and lg_filter = "[(ConversationsReplies ''C1'' ''1700000001.000100'', True)]"
        and root_message = "example_message ''u1'' ''<@BOT> help me plan a trip'' ''1700000001.000100''"
        and rest = "[]" and thread_ts = "''1700000001.000100''"
        and lg_root = "[(ConversationsReplies ''C1'' ''1700000001.000100'', True), (ConversationsReplies ''C1'' ''1700000001.000100'', True)]"
        and tmp_ts = "''1700000002.000300''"
        and lg_post = "[(ConversationsReplies ''C1'' ''1700000001.000100'', True), (ConversationsReplies ''C1'' ''1700000001.000100'', True), (ChatPostMessage ''C1'' ''1700000001.000100'' PLACEHOLDER_TEXT, True)]"
        and history = trip_thread
        and messages = "[\<lparr>role = ''system'', content = SYSTEM_PROMPT\<rparr>,
          \<lparr>role = ''user'', content = ''helpmeplanatrip''\<rparr>]"
        and lg_history = "[(ConversationsReplies ''C1'' ''1700000001.000100'', True), (ConversationsReplies ''C1'' ''1700000001.000100'', True),
        (ChatPostMessage ''C1'' ''1700000001.000100'' PLACEHOLDER_TEXT, True), (ConversationsReplies ''C1'' ''1700000001.000100'', True)]"
        and answer = "''Start with the dates.''" and others = "[]"
        and lg_request = "[(ConversationsReplies ''C1'' ''1700000001.000100'', True), (ConversationsReplies ''C1'' ''1700000001.000100'', True), (ChatPostMessage ''C1'' ''1700000001.000100'' PLACEHOLDER_TEXT, True), (ConversationsReplies ''C1'' ''1700000001.000100'', True),
          (ChatCompletionCreate ''gpt-3.5-turbo''
         [\<lparr>role = ''system'', content = SYSTEM_PROMPT\<rparr>,
          \<lparr>role = ''user'', content = ''helpmeplanatrip''\<rparr>], True)]"
        and lg_delete = "[(ConversationsReplies ''C1'' ''1700000001.000100'', True), (ConversationsReplies ''C1'' ''1700000001.000100'', True), (ChatPostMessage ''C1'' ''1700000001.000100'' PLACEHOLDER_TEXT, True), (ConversationsReplies ''C1'' ''1700000001.000100'', True),
          (ChatCompletionCreate ''gpt-3.5-turbo''
         [\<lparr>role = ''system'', content = SYSTEM_PROMPT\<rparr>,
          \<lparr>role = ''user'', content = ''helpmeplanatrip''\<rparr>], True),
          (ChatDelete ''C1'' ''1700000002.000300'', True)]"])
       (simp_all add: example_event_def example_services_def trip_thread_def example_message_def
          BOT_MENTION_def dp)
qed

text \<open>
  C10. On the same events: the handler returns normally, and the messages it has posted
  are the placeholder and then the final answer. The text of the answer is the first
  choice of the completion response as it came; its channel and thread root are those of
  the placeholder.
\<close>

theorem final_answer_is_first_choice:
  assumes "event ''subtype'' \<noteq> Some ''message_changed''"
    and "event ''channel'' = Some channel"
    and "event ''ts'' = Some ts"
    and "root = (case event ''thread_ts'' of None \<Rightarrow> ts | Some t \<Rightarrow> t)"
    and "conversations_replies app lg channel root = Inr thread"
    and "thread \<noteq> []"
    and "hd thread ''text'' = Some origin_message"
    and "last thread ''user'' = Some last_speaker"
    and "contains origin_message (BOT_MENTION bn)"
    and "Some last_speaker \<noteq> bn"
    and "lg_filter = lg @ [(ConversationsReplies channel root, True)]"
    and "conversations_replies app lg_filter channel ts = Inr (root_message # rest)"
    and "root_message ''ts'' = Some thread_ts"
    and "lg_root = lg_filter @ [(ConversationsReplies channel ts, True)]"
    and "chat_postMessage app lg_root channel thread_ts PLACEHOLDER_TEXT = Inr tmp_ts"
    and "lg_post = lg_root @ [(ChatPostMessage channel thread_ts PLACEHOLDER_TEXT, True)]"
    and "conversations_replies app lg_post channel root = Inr history"
    and "\<forall>m\<in>set history. m ''user'' \<noteq> None \<and> m ''text'' \<noteq> None"
    and "messages = \<lparr>role = ''system'', content = SYSTEM_PROMPT\<rparr> #
          map (\<lambda>m. \<lparr>role = (if m ''user'' = bn then ''assistant'' else ''user''),
                     content = delete_prefix bn (the (m ''text''))\<rparr>) history"
    and "lg_history = lg_post @ [(ConversationsReplies channel root, True)]"
    and "ChatCompletion_create app lg_history ''gpt-3.5-turbo'' messages = Inr (answer # others)"
    and "lg_request = lg_history @ [(ChatCompletionCreate ''gpt-3.5-turbo'' messages, True)]"
    and "chat_delete app lg_request channel tmp_ts = Inr ()"
    and "lg_delete = lg_request @ [(ChatDelete channel tmp_ts, True)]"
    and "say app lg_delete answer channel thread_ts = Inr ()"
  shows "fst (run_completion app bn event lg) = Inr () \<and>
    filter (\<lambda>x. is_post (fst x) \<or> is_say (fst x))
      (new_calls lg (snd (run_completion app bn event lg))) =
      [(ChatPostMessage channel thread_ts PLACEHOLDER_TEXT, True),
       (Say answer channel thread_ts, True)]"
  unfolding run_completion_all_succeed [OF assms]
  by (simp add: new_calls_def)

theorem final_answer_is_first_choice_witness:
  "fst (run_completion (example_services trip_thread) (Some ''BOT'') example_event [])
     = Inr () \<and>
   filter (\<lambda>x. is_post (fst x) \<or> is_say (fst x))
     (new_calls []
        (snd (run_completion (example_services trip_thread) (Some ''BOT'') example_event [])))
     = [(ChatPostMessage ''C1'' ''1700000001.000100'' PLACEHOLDER_TEXT, True),
        (Say ''Start with the dates.'' ''C1'' ''1700000001.000100'', True)]"
proof -
  have dp: "delete_prefix (Some ''BOT'') ''<@BOT> help me plan a trip'' = ''helpmeplanatrip''"
    by code_simp
  show ?thesis
    by (rule final_answer_is_first_choice
        [where event = example_event and app = "example_services trip_thread" and bn = "Some ''BOT''"
        and lg = "[]" and channel = "''C1''" and ts = "''1700000001.000100''" and root = "''1700000001.000100''"
        and thread = trip_thread and origin_message = "''<@BOT> help me plan a trip''"
        and last_speaker = "''u1''"
        and lg_filter = "[(ConversationsReplies ''C1'' ''1700000001.000100'', True)]"
        and root_message = "example_message ''u1'' ''<@BOT> help me plan a trip'' ''1700000001.000100''"
        and rest = "[]" and thread_ts = "''1700000001.000100''"
        and lg_root = "[(ConversationsReplies ''C1'' ''1700000001.000100'', True), (ConversationsReplies ''C1'' ''1700000001.000100'', True)]"
        and tmp_ts = "''1700000002.000300''"
        and lg_post = "[(ConversationsReplies ''C1'' ''1700000001.000100'', True), (ConversationsReplies ''C1'' ''1700000001.000100'', True), (ChatPostMessage ''C1'' ''1700000001.000100'' PLACEHOLDER_TEXT, True)]"
        and history = trip_thread
        and messages = "[\<lparr>role = ''system'', content = SYSTEM_PROMPT\<rparr>,
          \<lparr>role = ''user'', content = ''helpmeplanatrip''\<rparr>]"
        and lg_history = "[(ConversationsReplies ''C1'' ''1700000001.000100'', True), (ConversationsReplies ''C1'' ''1700000001.000100'', True),
        (ChatPostMessage ''C1'' ''1700000001.000100'' PLACEHOLDER_TEXT, True), (ConversationsReplies ''C1'' ''1700000001.000100'', True)]"
        and answer = "''Start with the dates.''" and others = "[]"
        and lg_request = "[(ConversationsReplies ''C1'' ''1700000001.000100'', True), (ConversationsReplies ''C1'' ''1700000001.000100'', True), (ChatPostMessage ''C1'' ''1700000001.000100'' PLACEHOLDER_TEXT, True), (ConversationsReplies ''C1'' ''1700000001.000100'', True),
          (ChatCompletionCreate ''gpt-3.5-turbo''
         [\<lparr>role = ''system'', content = SYSTEM_PROMPT\<rparr>,
          \<lparr>role = ''user'', content = ''helpmeplanatrip''\<rparr>], True)]"
        and lg_delete = "[(ConversationsReplies ''C1'' ''1700000001.000100'', True), (ConversationsReplies ''C1'' ''1700000001.000100'', True), (ChatPostMessage ''C1'' ''1700000001.000100'' PLACEHOLDER_TEXT, True), (ConversationsReplies ''C1'' ''1700000001.000100'', True),
          (ChatCompletionCreate ''gpt-3.5-turbo''
         [\<lparr>role = ''system'', content = SYSTEM_PROMPT\<rparr>,
          \<lparr>role = ''user'', content = ''helpmeplanatrip''\<rparr>], True),
          (ChatDelete ''C1'' ''1700000002.000300'', True)]"])
       (simp_all add: example_event_def example_services_def trip_thread_def example_message_def
          BOT_MENTION_def dp)
qed

text \<open>
  C5, as the claim states it: when a step after the placeholder post raises, the
  placeholder is never deleted. It fails when the step that raises is the final post: the
  run ends with the exception, and the placeholder has been deleted by then.
\<close>

theorem placeholder_deleted_when_final_post_fails:
  "fst (run_completion (say_down trip_thread) (Some ''BOT'') example_event [])
     = Inl (SlackApiError ''msg_too_long'') \<and>
   (ChatPostMessage ''C1'' ''1700000001.000100'' PLACEHOLDER_TEXT, True)
     \<in> set (snd (run_completion (say_down trip_thread) (Some ''BOT'') example_event [])) \<and>
   (ChatDelete ''C1'' ''1700000002.000300'', True)
     \<in> set (snd (run_completion (say_down trip_thread) (Some ''BOT'') example_event []))"
  by code_simp

text \<open>
  C5, amended. A triggered event on which the placeholder has been posted and the history
  adapter has built the prompt. When the completion request raises, the handler raises the
  same error and that request is its last: no delete, no final post. When the response
  has no choice, the handler raises \<open>IndexError\<close>, again with no delete and no final
  post. When the delete raises, the handler raises the same error and nothing is posted.
  When the final post raises, the handler raises the same error, and the placeholder has
  already been deleted. In every case the placeholder is the only message posted.
\<close>

theorem run_completion_raises:
  assumes "event ''subtype'' \<noteq> Some ''message_changed''"
    and "event ''channel'' = Some channel"
    and "event ''ts'' = Some ts"
    and "root = (case event ''thread_ts'' of None \<Rightarrow> ts | Some t \<Rightarrow> t)"
    and "conversations_replies app lg channel root = Inr thread"
    and "thread \<noteq> []"
    and "hd thread ''text'' = Some origin_message"
    and "last thread ''user'' = Some last_speaker"
    and "contains origin_message (BOT_MENTION bn)"
    and "Some last_speaker \<noteq> bn"
    and "lg_filter = lg @ [(ConversationsReplies channel root, True)]"
    and "conversations_replies app lg_filter channel ts = Inr (root_message # rest)"
    and "root_message ''ts'' = Some thread_ts"
    and "lg_root = lg_filter @ [(ConversationsReplies channel ts, True)]"
    and "chat_postMessage app lg_root channel thread_ts PLACEHOLDER_TEXT = Inr tmp_ts"
    and "lg_post = lg_root @ [(ChatPostMessage channel thread_ts PLACEHOLDER_TEXT, True)]"
    and "conversations_replies app lg_post channel root = Inr history"
    and "\<forall>m\<in>set history. m ''user'' \<noteq> None \<and> m ''text'' \<noteq> None"
    and "messages = \<lparr>role = ''system'', content = SYSTEM_PROMPT\<rparr> #
          map (\<lambda>m. \<lparr>role = (if m ''user'' = bn then ''assistant'' else ''user''),
                     content = delete_prefix bn (the (m ''text''))\<rparr>) history"
    and "lg_history = lg_post @ [(ConversationsReplies channel root, True)]"
  shows "(ChatCompletion_create app lg_history ''gpt-3.5-turbo'' messages = Inl e \<longrightarrow>
      run_completion app bn event lg =
        (Inl e, lg_history @ [(ChatCompletionCreate ''gpt-3.5-turbo'' messages, False)])) \<and>
    (ChatCompletion_create app lg_history ''gpt-3.5-turbo'' messages = Inr [] \<longrightarrow>
      run_completion app bn event lg =
        (Inl IndexError, lg_history @ [(ChatCompletionCreate ''gpt-3.5-turbo'' messages, True)])) \<and>
    (ChatCompletion_create app lg_history ''gpt-3.5-turbo'' messages = Inr (answer # others) \<and>
     chat_delete app (lg_history @ [(ChatCompletionCreate ''gpt-3.5-turbo'' messages, True)])
       channel tmp_ts = Inl e \<longrightarrow>
      run_completion app bn event lg =
        (Inl e, lg_history @ [(ChatCompletionCreate ''gpt-3.5-turbo'' messages, True),
                       (ChatDelete channel tmp_ts, False)])) \<and>
    (ChatCompletion_create app lg_history ''gpt-3.5-turbo'' messages = Inr (answer # others) \<and>
     chat_delete app (lg_history @ [(ChatCompletionCreate ''gpt-3.5-turbo'' messages, True)])
       channel tmp_ts = Inr () \<and>
     say app (lg_history @ [(ChatCompletionCreate ''gpt-3.5-turbo'' messages, True),
                     (ChatDelete channel tmp_ts, True)]) answer channel thread_ts = Inl e \<longrightarrow>
      run_completion app bn event lg =
        (Inl e, lg_history @ [(ChatCompletionCreate ''gpt-3.5-turbo'' messages, True),
                       (ChatDelete channel tmp_ts, True),
                       (Say answer channel thread_ts, False)])) \<and>
    filter (\<lambda>x. is_post (fst x)) (new_calls lg lg_history) =
      [(ChatPostMessage channel thread_ts PLACEHOLDER_TEXT, True)]"
proof -
  have posted: "filter (\<lambda>x. is_post (fst x)) (new_calls lg lg_history) =
      [(ChatPostMessage channel thread_ts PLACEHOLDER_TEXT, True)]"
    by (simp add: new_calls_def assms(11,14,16,20))
  show ?thesis
    unfolding run_completion_until_request [OF assms]
    by (simp add: bind_def perform_def first_item_def ret_def raise_def posted)
qed

theorem run_completion_raises_witness:
  "run_completion (completion_down trip_thread) (Some ''BOT'') example_event [] =
     (Inl (OpenAIError ''timeout''),
      [(ConversationsReplies ''C1'' ''1700000001.000100'', True), (ConversationsReplies ''C1'' ''1700000001.000100'', True),
        (ChatPostMessage ''C1'' ''1700000001.000100'' PLACEHOLDER_TEXT, True), (ConversationsReplies ''C1'' ''1700000001.000100'', True)] @
       [(ChatCompletionCreate ''gpt-3.5-turbo''
         [\<lparr>role = ''system'', content = SYSTEM_PROMPT\<rparr>,
          \<lparr>role = ''user'', content = ''helpmeplanatrip''\<rparr>], False)]) \<and>
   run_completion (say_down trip_thread) (Some ''BOT'') example_event [] =
     (Inl (SlackApiError ''msg_too_long''),
      [(ConversationsReplies ''C1'' ''1700000001.000100'', True), (ConversationsReplies ''C1'' ''1700000001.000100'', True),
        (ChatPostMessage ''C1'' ''1700000001.000100'' PLACEHOLDER_TEXT, True), (ConversationsReplies ''C1'' ''1700000001.000100'', True)] @
       [(ChatCompletionCreate ''gpt-3.5-turbo''
         [\<lparr>role = ''system'', content = SYSTEM_PROMPT\<rparr>,
          \<lparr>role = ''user'', content = ''helpmeplanatrip''\<rparr>], True),
        (ChatDelete ''C1'' ''1700000002.000300'', True),
        (Say ''Start with the dates.'' ''C1'' ''1700000001.000100'', False)])"
proof -
  have dp: "delete_prefix (Some ''BOT'') ''<@BOT> help me plan a trip'' = ''helpmeplanatrip''"
    by code_simp
  have request: "run_completion (completion_down trip_thread) (Some ''BOT'') example_event [] =
     (Inl (OpenAIError ''timeout''),
      [(ConversationsReplies ''C1'' ''1700000001.000100'', True), (ConversationsReplies ''C1'' ''1700000001.000100'', True),
        (ChatPostMessage ''C1'' ''1700000001.000100'' PLACEHOLDER_TEXT, True), (ConversationsReplies ''C1'' ''1700000001.000100'', True)] @
       [(ChatCompletionCreate ''gpt-3.5-turbo''
         [\<lparr>role = ''system'', content = SYSTEM_PROMPT\<rparr>,
          \<lparr>role = ''user'', content = ''helpmeplanatrip''\<rparr>], False)])"
    by (rule run_completion_raises
        [where event = example_event and app = "completion_down trip_thread" and bn = "Some ''BOT''"
        and lg = "[]" and channel = "''C1''" and ts = "''1700000001.000100''" and root = "''1700000001.000100''"
        and thread = trip_thread and origin_message = "''<@BOT> help me plan a trip''"
        and last_speaker = "''u1''"
        and lg_filter = "[(ConversationsReplies ''C1'' ''1700000001.000100'', True)]"
        and root_message = "example_message ''u1'' ''<@BOT> help me plan a trip'' ''1700000001.000100''"
        and rest = "[]" and thread_ts = "''1700000001.000100''"
        and lg_root = "[(ConversationsReplies ''C1'' ''1700000001.000100'', True), (ConversationsReplies ''C1'' ''1700000001.000100'', True)]"
        and tmp_ts = "''1700000002.000300''"
        and lg_post = "[(ConversationsReplies ''C1'' ''1700000001.000100'', True), (ConversationsReplies ''C1'' ''1700000001.000100'', True), (ChatPostMessage ''C1'' ''1700000001.000100'' PLACEHOLDER_TEXT, True)]"
        and history = trip_thread
        and messages = "[\<lparr>role = ''system'', content = SYSTEM_PROMPT\<rparr>,
          \<lparr>role = ''user'', content = ''helpmeplanatrip''\<rparr>]"
        and lg_history = "[(ConversationsReplies ''C1'' ''1700000001.000100'', True), (ConversationsReplies ''C1'' ''1700000001.000100'', True),
        (ChatPostMessage ''C1'' ''1700000001.000100'' PLACEHOLDER_TEXT, True), (ConversationsReplies ''C1'' ''1700000001.000100'', True)]",
         THEN conjunct1, THEN mp])
       (simp_all add: completion_down_def example_event_def example_services_def trip_thread_def example_message_def
          BOT_MENTION_def dp)
  have post: "run_completion (say_down trip_thread) (Some ''BOT'') example_event [] =
     (Inl (SlackApiError ''msg_too_long''),
      [(ConversationsReplies ''C1'' ''1700000001.000100'', True), (ConversationsReplies ''C1'' ''1700000001.000100'', True),
        (ChatPostMessage ''C1'' ''1700000001.000100'' PLACEHOLDER_TEXT, True), (ConversationsReplies ''C1'' ''1700000001.000100'', True)] @
       [(ChatCompletionCreate ''gpt-3.5-turbo''
         [\<lparr>role = ''system'', content = SYSTEM_PROMPT\<rparr>,
          \<lparr>role = ''user'', content = ''helpmeplanatrip''\<rparr>], True),
        (ChatDelete ''C1'' ''1700000002.000300'', True),
        (Say ''Start with the dates.'' ''C1'' ''1700000001.000100'', False)])"
    by (rule run_completion_raises
        [where event = example_event and app = "say_down trip_thread" and bn = "Some ''BOT''"
        and lg = "[]" and channel = "''C1''" and ts = "''1700000001.000100''" and root = "''1700000001.000100''"
        and thread = trip_thread and origin_message = "''<@BOT> help me plan a trip''"
        and last_speaker = "''u1''"
        and lg_filter = "[(ConversationsReplies ''C1'' ''1700000001.000100'', True)]"
        and root_message = "example_message ''u1'' ''<@BOT> help me plan a trip'' ''1700000001.000100''"
        and rest = "[]" and thread_ts = "''1700000001.000100''"
        and lg_root = "[(ConversationsReplies ''C1'' ''1700000001.000100'', True), (ConversationsReplies ''C1'' ''1700000001.000100'', True)]"
        and tmp_ts = "''1700000002.000300''"
        and lg_post = "[(ConversationsReplies ''C1'' ''1700000001.000100'', True), (ConversationsReplies ''C1'' ''1700000001.000100'', True), (ChatPostMessage ''C1'' ''1700000001.000100'' PLACEHOLDER_TEXT, True)]"
        and history = trip_thread
        and messages = "[\<lparr>role = ''system'', content = SYSTEM_PROMPT\<rparr>,
          \<lparr>role = ''user'', content = ''helpmeplanatrip''\<rparr>]"
        and lg_history = "[(ConversationsReplies ''C1'' ''1700000001.000100'', True), (ConversationsReplies ''C1'' ''1700000001.000100'', True),
        (ChatPostMessage ''C1'' ''1700000001.000100'' PLACEHOLDER_TEXT, True), (ConversationsReplies ''C1'' ''1700000001.000100'', True)]"
        and answer = "''Start with the dates.''" and others = "[]",
         THEN conjunct2, THEN conjunct2, THEN conjunct2, THEN conjunct1, THEN mp])
       (simp_all add: say_down_def example_event_def example_services_def trip_thread_def example_message_def
          BOT_MENTION_def dp)
  from request post show ?thesis
    by (rule conjI)
qed

end
